theory Spec2Isabelle
  imports Main "HOL-Library.Sublist"
begin

section \<open>JavaScript values the components compute with\<close>

text \<open>
  An optional prop is an \<open>option\<close>: \<open>None\<close> is \<open>undefined\<close>. The components
  test optional strings by truthiness (\<open>href ? ... : ...\<close>, \<open>target || ...\<close>): the
  empty string is as falsy as \<open>undefined\<close>.
\<close>

definition truthy :: "string option \<Rightarrow> bool" where
  "truthy v = (case v of None \<Rightarrow> False | Some s \<Rightarrow> s \<noteq> [])"

text \<open>\<open>a || b\<close> on optional strings.\<close>

definition or_else :: "string option \<Rightarrow> string option \<Rightarrow> string option" where
  "or_else a b = (if truthy a then a else b)"

text \<open>\<open>n || d\<close> on an optional number: \<open>undefined\<close> and \<open>0\<close> are falsy.\<close>

definition num_or :: "int option \<Rightarrow> int \<Rightarrow> int" where
  "num_or n d = (case n of None \<Rightarrow> d | Some k \<Rightarrow> if k = 0 then d else k)"

text \<open>\<open>String.prototype.startsWith\<close> with position 0.\<close>

definition startsWith :: "string \<Rightarrow> string \<Rightarrow> bool" where
  "startsWith s p = (take (length p) s = p)"

text \<open>
  Reading \<open>table[key]\<close> from an object literal. A key the literal does not define is
  still found when \<open>Object.prototype\<close> defines it (the value is then a function or the
  prototype object, never a string); any other key reads \<open>undefined\<close>.
\<close>

definition objectPrototypeKeys :: "string list" where
  "objectPrototypeKeys =
     [''constructor'', ''__proto__'', ''hasOwnProperty'', ''isPrototypeOf'',
      ''propertyIsEnumerable'', ''toLocaleString'', ''toString'', ''valueOf'',
      ''__defineGetter__'', ''__defineSetter__'', ''__lookupGetter__'', ''__lookupSetter__'']"

datatype 'a js_prop = Own 'a | Inherited | Missing

definition js_get :: "(string \<times> 'a) list \<Rightarrow> string \<Rightarrow> 'a js_prop" where
  "js_get table k =
     (case map_of table k of
        Some v \<Rightarrow> Own v
      | None \<Rightarrow> if k \<in> set objectPrototypeKeys then Inherited else Missing)"

datatype js_error = TypeError string

section \<open>Class values and their merging\<close>

text \<open>
  What the components hand to the class helpers: a string, \<open>undefined\<close>, an object
  literal from class names to conditions, or a value that is none of these
  (\<open>Opaque\<close>: a function or an object without enumerable keys).
\<close>

datatype class_value = Str string | Undefined | Opaque | Dict "(string \<times> bool) list"

definition fragmentOf :: "string js_prop \<Rightarrow> class_value" where
  "fragmentOf r = (case r of Own s \<Rightarrow> Str s | Inherited \<Rightarrow> Opaque | Missing \<Rightarrow> Undefined)"

definition opt_class :: "string option \<Rightarrow> class_value" where
  "opt_class v = (case v of None \<Rightarrow> Undefined | Some s \<Rightarrow> Str s)"

text \<open>
  The fragments one class value contributes, in order: a non-empty string itself, the
  keys of an object literal whose condition holds, nothing otherwise.
\<close>

fun toVal :: "class_value \<Rightarrow> string list" where
  "toVal (Str s) = (if s = [] then [] else [s])"
| "toVal Undefined = []"
| "toVal Opaque = []"
| "toVal (Dict kvs) = filter (\<lambda>k. k \<noteq> []) (map fst (filter snd kvs))"

definition fragments :: "class_value list \<Rightarrow> string list" where
  "fragments args = concat (map toVal args)"

fun join_sp :: "string list \<Rightarrow> string" where
  "join_sp [] = []"
| "join_sp [x] = x"
| "join_sp (x # y # ys) = x @ '' '' @ join_sp (y # ys)"

text \<open>
  \<open>clsx\<close> (the \<open>cx\<close> of class-variance-authority): the contributed fragments joined by
  single spaces.
\<close>

definition clsx :: "class_value list \<Rightarrow> string" where
  "clsx args = join_sp (fragments args)"

text \<open>Splitting a class string into its tokens at spaces.\<close>

fun tokens_from :: "string \<Rightarrow> string \<Rightarrow> string list" where
  "tokens_from acc [] = (if acc = [] then [] else [rev acc])"
| "tokens_from acc (c # cs) =
     (if c = CHR '' ''
      then (if acc = [] then tokens_from [] cs else rev acc # tokens_from [] cs)
      else tokens_from (c # acc) cs)"

definition tokens :: "string \<Rightarrow> string list" where
  "tokens s = tokens_from [] s"

text \<open>
  Modelled from the spec: \<open>cn\<close> of \<open>@/lib/utils\<close>, which every component imports and
  which is not among the sources. Section 4.2 of the specification: fragments are
  appended in argument order, empty and undefined ones are dropped, a class token
  that occurs several times is kept at its last occurrence only, and the result is
  one space-joined string.
\<close>

definition cn :: "class_value list \<Rightarrow> string" where
  "cn args = join_sp (remdups (concat (map tokens (fragments args))))"

text \<open>
  \<open>cva(base, {variants, defaultVariants})\<close> of the class-variance-authority package,
  after the package's documented behaviour: for every dimension in declaration
  order the key is \<open>props[dimension] || defaultVariants[dimension]\<close>, the fragment
  is \<open>variants[dimension][key]\<close>, and the result is
  \<open>cx(base, fragments, props.className)\<close>.
\<close>

definition variantClassName ::
  "(string \<times> string) list \<Rightarrow> (string \<Rightarrow> string option) \<Rightarrow>
   string \<times> (string \<times> string) list \<Rightarrow> class_value" where
  "variantClassName defaultVariants props dv =
     (case or_else (props (fst dv)) (map_of defaultVariants (fst dv)) of
        None \<Rightarrow> Undefined
      | Some variantKey \<Rightarrow> fragmentOf (js_get (snd dv) variantKey))"

definition cvaArgs ::
  "string \<Rightarrow> (string \<times> (string \<times> string) list) list \<Rightarrow> (string \<times> string) list \<Rightarrow>
   (string \<Rightarrow> string option) \<Rightarrow> string option \<Rightarrow> class_value list" where
  "cvaArgs base variants defaultVariants props className =
     Str base # map (variantClassName defaultVariants props) variants @ [opt_class className]"

definition cva ::
  "string \<Rightarrow> (string \<times> (string \<times> string) list) list \<Rightarrow> (string \<times> string) list \<Rightarrow>
   (string \<Rightarrow> string option) \<Rightarrow> string option \<Rightarrow> string" where
  "cva base variants defaultVariants props className =
     clsx (cvaArgs base variants defaultVariants props className)"

section \<open>Button.tsx\<close>

definition buttonBase :: string where
  "buttonBase = ''inline-flex items-center justify-center gap-2 rounded-full border border-solid transition-colors font-medium focus-visible:outline-none focus-visible:ring-2 focus-visible:ring-ring focus-visible:ring-offset-2 disabled:pointer-events-none disabled:opacity-50''"

definition buttonVariantTable :: "(string \<times> (string \<times> string) list) list" where
  "buttonVariantTable =
     [(''variant'',
        [(''primary'', ''bg-foreground text-background border-transparent hover:bg-[#383838] dark:hover:bg-[#ccc]''),
         (''secondary'', ''border-black/[.08] dark:border-white/[.145] hover:bg-[#f2f2f2] dark:hover:bg-[#1a1a1a] hover:border-transparent''),
         (''ghost'', ''border-transparent hover:bg-accent hover:text-accent-foreground''),
         (''link'', ''border-transparent underline-offset-4 hover:underline text-primary'')]),
      (''size'',
        [(''sm'', ''h-9 px-3 text-sm''),
         (''default'', ''h-10 px-4 text-sm sm:h-12 sm:px-5 sm:text-base''),
         (''lg'', ''h-11 px-8 text-base''),
         (''icon'', ''h-10 w-10'')]),
      (''width'',
        [(''auto'', ''w-auto''),
         (''full'', ''w-full''),
         (''fixed'', ''w-full sm:w-auto md:w-[158px]'')])]"

definition buttonDefaultVariants :: "(string \<times> string) list" where
  "buttonDefaultVariants =
     [(''variant'', ''primary''), (''size'', ''default''), (''width'', ''auto'')]"

text \<open>
  \<open>buttonVariants({variant, size, width, className})\<close>: the three dimensions as the
  caller gave them (\<open>None\<close> when omitted).
\<close>

definition variantProps ::
  "string option \<Rightarrow> string option \<Rightarrow> string option \<Rightarrow> string \<Rightarrow> string option" where
  "variantProps v s w d =
     (if d = ''variant'' then v
      else if d = ''size'' then s
      else if d = ''width'' then w
      else None)"

definition buttonVariants ::
  "string option \<Rightarrow> string option \<Rightarrow> string option \<Rightarrow> string option \<Rightarrow> string" where
  "buttonVariants v s w c =
     cva buttonBase buttonVariantTable buttonDefaultVariants (variantProps v s w) c"

text \<open>
  What is rendered. \<open>ImageEl\<close> is the image element with its \<open>src\<close>, \<open>alt\<close>, \<open>width\<close>,
  \<open>height\<close> and \<open>className\<close>; \<open>Spinner\<close> is the spinning \<open>svg\<close> of the loading
  state. A click handler is an opaque handle.
\<close>

datatype node =
    Text string
  | Spinner
  | ImageEl "string option" "string option" int int string
  | Span "node list"
  | Fragment "node list"

type_synonym handler = nat

text \<open>Truthiness of a \<open>ReactNode\<close> prop: \<open>undefined\<close> and the empty string are falsy.\<close>

definition node_truthy :: "node option \<Rightarrow> bool" where
  "node_truthy v = (case v of None \<Rightarrow> False | Some (Text s) \<Rightarrow> s \<noteq> [] | Some _ \<Rightarrow> True)"

record ButtonProps =
  className :: "string option"
  variant :: "string option"
  size_dim :: "string option"
  width :: "string option"
  href :: "string option"
  target :: "string option"
  rel :: "string option"
  icon :: "node option"
  iconPosition :: "string option"
  loading :: "bool option"
  loadingText :: "string option"
  children :: "node list"
  disabled :: "bool option"
  onClick :: "handler option"

text \<open>
  The element \<open>Button\<close> returns: the anchor carries \<open>href\<close>, \<open>target\<close>, \<open>rel\<close>, the
  class string, the remaining props (the click handler) and the content; the button
  carries the class string, \<open>disabled\<close>, the remaining props and the content. The
  anchor has no \<open>disabled\<close> attribute.
\<close>

datatype element =
    Anchor (a_href: string) (a_target: "string option") (a_rel: "string option")
           (a_className: string) (a_onClick: "handler option") (a_content: "node list")
  | ButtonEl (b_className: string) (b_disabled: bool)
             (b_onClick: "handler option") (b_content: "node list")

definition isLoading :: "ButtonProps \<Rightarrow> bool" where
  "isLoading p = (loading p = Some True)"

text \<open>\<open>const isDisabled = disabled || loading\<close>.\<close>

definition isDisabled :: "ButtonProps \<Rightarrow> bool" where
  "isDisabled p = (disabled p = Some True \<or> isLoading p)"

text \<open>\<open>iconPosition = 'left'\<close> when omitted.\<close>

definition iconPositionOf :: "ButtonProps \<Rightarrow> string" where
  "iconPositionOf p = (case iconPosition p of None \<Rightarrow> ''left'' | Some s \<Rightarrow> s)"

definition iconAt :: "ButtonProps \<Rightarrow> string \<Rightarrow> node list" where
  "iconAt p side =
     (if \<not> isLoading p \<and> node_truthy (icon p) \<and> iconPositionOf p = side
      then (case icon p of Some i \<Rightarrow> [i] | None \<Rightarrow> []) else [])"

definition content :: "ButtonProps \<Rightarrow> node list" where
  "content p =
     (if isLoading p then [Spinner] else [])
     @ iconAt p ''left''
     @ [Span (if isLoading p \<and> truthy (loadingText p)
              then (case loadingText p of Some t \<Rightarrow> [Text t] | None \<Rightarrow> [])
              else children p)]
     @ iconAt p ''right''"

text \<open>\<open>const Comp = href ? 'a' : 'button'\<close>.\<close>

definition Comp :: "ButtonProps \<Rightarrow> string" where
  "Comp p = (if truthy (href p) then ''a'' else ''button'')"

definition buttonClassName :: "ButtonProps \<Rightarrow> string" where
  "buttonClassName p = cn [Str (buttonVariants (variant p) (size_dim p) (width p) (className p))]"

definition Button :: "ButtonProps \<Rightarrow> element" where
  "Button p =
     (case href p of
        Some h \<Rightarrow>
          if h \<noteq> [] then Anchor h (target p) (rel p) (buttonClassName p) (onClick p) (content p)
          else ButtonEl (buttonClassName p) (isDisabled p) (onClick p) (content p)
      | None \<Rightarrow> ButtonEl (buttonClassName p) (isDisabled p) (onClick p) (content p))"

section \<open>ActionButtons: the single action button\<close>

text \<open>
  \<open>ActionButtonConfig\<close>. The interface declares \<open>src\<close> and \<open>alt\<close> of the icon as
  required strings; nothing in the component reads the type at run time, so they are
  optional here and a descriptor that lacks them can be written down.
\<close>

record icon_config =
  icon_src :: "string option"
  icon_alt :: "string option"
  icon_width :: "int option"
  icon_height :: "int option"
  icon_position :: "string option"
  icon_className :: "string option"

record ActionButtonConfig =
  cfg_label :: string
  cfg_href :: string
  cfg_variant :: "string option"
  cfg_size :: "string option"
  cfg_width :: "string option"
  cfg_icon :: "icon_config option"
  cfg_external :: "bool option"
  cfg_target :: "string option"
  cfg_rel :: "string option"
  cfg_className :: "string option"
  cfg_loading :: "bool option"
  cfg_disabled :: "bool option"
  cfg_onClick :: "handler option"

text \<open>
  \<open>const isExternal = external || href.startsWith('http') || href.startsWith('//')\<close>,
  with \<open>external = false\<close> when omitted.
\<close>

definition isExternal :: "string \<Rightarrow> bool option \<Rightarrow> bool" where
  "isExternal h external =
     (external = Some True \<or> startsWith h ''http'' \<or> startsWith h ''//'')"

text \<open>\<open>const finalTarget = target || (isExternal ? '_blank' : undefined)\<close>.\<close>

definition finalTarget :: "ActionButtonConfig \<Rightarrow> string option" where
  "finalTarget c =
     or_else (cfg_target c)
       (if isExternal (cfg_href c) (cfg_external c) then Some ''_blank'' else None)"

text \<open>\<open>const finalRel = rel || (isExternal ? 'noopener noreferrer' : undefined)\<close>.\<close>

definition finalRel :: "ActionButtonConfig \<Rightarrow> string option" where
  "finalRel c =
     or_else (cfg_rel c)
       (if isExternal (cfg_href c) (cfg_external c) then Some ''noopener noreferrer'' else None)"

definition iconImage :: "icon_config \<Rightarrow> node" where
  "iconImage i =
     ImageEl (icon_src i) (icon_alt i) (num_or (icon_width i) 20) (num_or (icon_height i) 20)
       (cn [Str ''flex-shrink-0'', opt_class (icon_className i)])"

definition buttonContent :: "ActionButtonConfig \<Rightarrow> node" where
  "buttonContent c =
     Fragment
       ((case cfg_icon c of
           Some i \<Rightarrow> if icon_position i \<noteq> Some ''right'' then [iconImage i] else []
         | None \<Rightarrow> [])
        @ [Span [Text (cfg_label c)]]
        @ (case cfg_icon c of
             Some i \<Rightarrow> if icon_position i = Some ''right'' then [iconImage i] else []
           | None \<Rightarrow> []))"

text \<open>A destructuring default: it replaces \<open>undefined\<close> only.\<close>

definition default_to :: "'a \<Rightarrow> 'a option \<Rightarrow> 'a" where
  "default_to d v = (case v of None \<Rightarrow> d | Some x \<Rightarrow> x)"

text \<open>The props \<open>ActionButton\<close> hands to \<open>Button\<close>.\<close>

definition ActionButton :: "ActionButtonConfig \<Rightarrow> ButtonProps" where
  "ActionButton c =
     \<lparr> className = cfg_className c,
       variant = Some (default_to ''primary'' (cfg_variant c)),
       size_dim = Some (default_to ''default'' (cfg_size c)),
       width = Some (default_to ''auto'' (cfg_width c)),
       href = Some (cfg_href c),
       target = finalTarget c,
       rel = finalRel c,
       icon = None,
       iconPosition = None,
       loading = Some (default_to False (cfg_loading c)),
       loadingText = None,
       children = [buttonContent c],
       disabled = Some (default_to False (cfg_disabled c)),
       onClick = cfg_onClick c \<rparr>"

definition renderActionButton :: "ActionButtonConfig \<Rightarrow> element" where
  "renderActionButton c = Button (ActionButton c)"

section \<open>ActionButtons: the container\<close>

record responsive_config =
  mobile :: "string option"
  tablet :: "string option"

record ActionButtonsProps =
  abs_buttons :: "ActionButtonConfig list"
  abs_direction :: "string option"
  abs_align :: "string option"
  abs_gap :: "string option"
  abs_width :: "string option"
  abs_className :: "string option"
  abs_responsive :: "responsive_config option"

definition gapClasses :: "(string \<times> string) list" where
  "gapClasses = [(''sm'', ''gap-2''), (''md'', ''gap-4''), (''lg'', ''gap-6'')]"

definition alignClasses :: "(string \<times> string) list" where
  "alignClasses =
     [(''start'', ''justify-start items-start''),
      (''center'', ''justify-center items-center''),
      (''end'', ''justify-end items-end''),
      (''stretch'', ''justify-stretch items-stretch'')]"

text \<open>
  The object literal of conditional classes inside \<open>containerClasses\<close>, for a
  direction, a width and the \<open>mobile\<close> behaviour of the responsive configuration.
\<close>

definition containerRules :: "string \<Rightarrow> string \<Rightarrow> string option \<Rightarrow> (string \<times> bool) list" where
  "containerRules direction w mob =
     [(''flex-col'', direction = ''vertical''),
      (''flex-row'', direction = ''horizontal''),
      (''w-full'', w = ''full''),
      (''w-auto'', w = ''auto''),
      (''flex-col sm:flex-row'', mob = Some ''stack'' \<and> direction = ''horizontal''),
      (''flex-row flex-wrap'', mob = Some ''wrap''),
      (''flex-row overflow-x-auto'', mob = Some ''scroll'')]"

definition directionOf :: "ActionButtonsProps \<Rightarrow> string" where
  "directionOf p = default_to ''horizontal'' (abs_direction p)"

text \<open>\<open>responsive = { mobile: 'stack', tablet: 'row' }\<close> when omitted.\<close>

definition responsiveOf :: "ActionButtonsProps \<Rightarrow> responsive_config" where
  "responsiveOf p = default_to \<lparr> mobile = Some ''stack'', tablet = Some ''row'' \<rparr> (abs_responsive p)"

definition containerArgs :: "ActionButtonsProps \<Rightarrow> class_value list" where
  "containerArgs p =
     [Str ''flex'',
      fragmentOf (js_get gapClasses (default_to ''md'' (abs_gap p))),
      fragmentOf (js_get alignClasses (default_to ''center'' (abs_align p))),
      Dict (containerRules (directionOf p) (default_to ''auto'' (abs_width p))
              (mobile (responsiveOf p))),
      opt_class (abs_className p)]"

definition containerClasses :: "ActionButtonsProps \<Rightarrow> string" where
  "containerClasses p = cn (containerArgs p)"

text \<open>The rendered container: its class string and one button per configuration.\<close>

definition ActionButtons :: "ActionButtonsProps \<Rightarrow> string \<times> element list" where
  "ActionButtons p = (containerClasses p, map renderActionButton (abs_buttons p))"

section \<open>PageLayout.tsx\<close>

record layout =
  layout_container :: string
  layout_main :: string
  layout_footer :: string

record main_config =
  main_className :: "string option"
  main_centered :: "bool option"
  main_maxWidth :: "string option"
  main_padding :: "bool option"

record container_config =
  container_className :: "string option"
  container_fluid :: "bool option"

record PageLayoutProps =
  pl_variant :: "string option"
  pl_main :: "main_config option"
  pl_container :: "container_config option"
  pl_className :: "string option"
  pl_background :: "string option"

definition layoutVariants :: "(string \<times> layout) list" where
  "layoutVariants =
     [(''default'',
        \<lparr> layout_container = ''grid grid-rows-[20px_1fr_20px] items-center justify-items-center min-h-screen p-8 pb-20 gap-16 sm:p-20'',
          layout_main = ''flex flex-col gap-[32px] row-start-2 items-center sm:items-start'',
          layout_footer = ''row-start-3'' \<rparr>),
      (''landing'',
        \<lparr> layout_container = ''min-h-screen flex flex-col'',
          layout_main = ''flex-1 flex flex-col items-center justify-center px-4 sm:px-6 lg:px-8'',
          layout_footer = ''mt-auto'' \<rparr>),
      (''app'',
        \<lparr> layout_container = ''min-h-screen grid grid-rows-[auto_1fr_auto]'',
          layout_main = ''container mx-auto px-4 sm:px-6 lg:px-8 py-8'',
          layout_footer = [] \<rparr>),
      (''docs'',
        \<lparr> layout_container = ''min-h-screen grid grid-rows-[auto_1fr_auto]'',
          layout_main = ''container mx-auto px-4 sm:px-6 lg:px-8 py-8 max-w-4xl'',
          layout_footer = [] \<rparr>),
      (''centered'',
        \<lparr> layout_container = ''min-h-screen flex flex-col items-center justify-center p-4'',
          layout_main = ''w-full max-w-md'',
          layout_footer = ''mt-8'' \<rparr>),
      (''fullscreen'',
        \<lparr> layout_container = ''min-h-screen flex flex-col'',
          layout_main = ''flex-1'',
          layout_footer = [] \<rparr>)]"

definition maxWidthClasses :: "(string \<times> string) list" where
  "maxWidthClasses =
     [(''sm'', ''max-w-sm''), (''md'', ''max-w-md''), (''lg'', ''max-w-lg''),
      (''xl'', ''max-w-xl''), (''2xl'', ''max-w-2xl''), (''full'', ''max-w-full''),
      (''none'', [])]"

definition backgroundVariants :: "(string \<times> string) list" where
  "backgroundVariants =
     [(''default'', []),
      (''gradient'', ''bg-gradient-to-br from-background via-background to-muted/20''),
      (''grid'', ''bg-grid-pattern''),
      (''dots'', ''bg-dots-pattern''),
      (''none'', [])]"

text \<open>
  \<open>layout.container\<close> and \<open>layout.main\<close> for \<open>const layout = layoutVariants[variant]\<close>:
  reading a property of \<open>undefined\<close> throws a \<open>TypeError\<close> (which names the property
  read); reading it from an inherited function or object gives \<open>undefined\<close>.
\<close>

definition read_layout ::
  "layout js_prop \<Rightarrow> (layout \<Rightarrow> string) \<Rightarrow> string \<Rightarrow> js_error + class_value" where
  "read_layout l field name =
     (case l of
        Own v \<Rightarrow> Inr (Str (field v))
      | Inherited \<Rightarrow> Inr Undefined
      | Missing \<Rightarrow> Inl (TypeError name))"

definition variantOf :: "PageLayoutProps \<Rightarrow> string" where
  "variantOf p = default_to ''default'' (pl_variant p)"

definition mainOf :: "PageLayoutProps \<Rightarrow> main_config" where
  "mainOf p =
     default_to \<lparr> main_className = None, main_centered = None, main_maxWidth = None,
                  main_padding = None \<rparr> (pl_main p)"

definition containerOf :: "PageLayoutProps \<Rightarrow> container_config" where
  "containerOf p =
     default_to \<lparr> container_className = None, container_fluid = None \<rparr> (pl_container p)"

text \<open>The arguments of the two \<open>cn\<close> calls after \<open>layout.container\<close> and \<open>layout.main\<close>.\<close>

definition pageContainerRest :: "PageLayoutProps \<Rightarrow> class_value list" where
  "pageContainerRest p =
     [fragmentOf (js_get backgroundVariants (default_to ''default'' (pl_background p))),
      Str ''font-[family-name:var(--font-geist-sans)]'',
      Str (if container_fluid (containerOf p) = Some True then ''w-full'' else []),
      opt_class (container_className (containerOf p)),
      opt_class (pl_className p)]"

text \<open>\<open>main.maxWidth ? maxWidthClasses[main.maxWidth] : ''\<close>.\<close>

definition maxWidthValue :: "string option \<Rightarrow> class_value" where
  "maxWidthValue k =
     (case k of
        None \<Rightarrow> Str []
      | Some key \<Rightarrow> if key = [] then Str [] else fragmentOf (js_get maxWidthClasses key))"

definition pageMainRest :: "PageLayoutProps \<Rightarrow> class_value list" where
  "pageMainRest p =
     [opt_class (main_className (mainOf p)),
      maxWidthValue (main_maxWidth (mainOf p)),
      Str (if main_centered (mainOf p) = Some True \<and> variantOf p \<noteq> ''centered''
           then ''mx-auto'' else []),
      Str (if main_padding (mainOf p) \<noteq> Some False \<and> variantOf p = ''fullscreen''
           then ''p-4 sm:p-6 lg:p-8'' else [])]"

record page_classes =
  page_containerClasses :: string
  page_mainClasses :: string

text \<open>
  The class resolution of \<open>PageLayout\<close>: \<open>containerClasses\<close> and \<open>mainClasses\<close>, or the
  error thrown on the way.
\<close>

definition PageLayout :: "PageLayoutProps \<Rightarrow> js_error + page_classes" where
  "PageLayout p =
     (let l = js_get layoutVariants (variantOf p) in
      case read_layout l layout_container ''container'' of
        Inl e \<Rightarrow> Inl e
      | Inr c \<Rightarrow>
          (case read_layout l layout_main ''main'' of
             Inl e \<Rightarrow> Inl e
           | Inr m \<Rightarrow>
               Inr \<lparr> page_containerClasses = cn (c # pageContainerRest p),
                     page_mainClasses = cn (m # pageMainRest p) \<rparr>))"

section \<open>The kind of element rendered\<close>

datatype element_kind = Navigable | Actionable

definition elementKind :: "element \<Rightarrow> element_kind" where
  "elementKind e = (case e of Anchor h t r c k ct \<Rightarrow> Navigable | ButtonEl c d k ct \<Rightarrow> Actionable)"

text \<open>The content of a rendered element, whichever its kind.\<close>

definition elementContent :: "element \<Rightarrow> node list" where
  "elementContent e = (case e of Anchor h t r c k ct \<Rightarrow> ct | ButtonEl c d k ct \<Rightarrow> ct)"

text \<open>The image elements inside a node and inside a rendered element, in document order.\<close>

fun imagesOf :: "node \<Rightarrow> node list" where
  "imagesOf (Text s) = []"
| "imagesOf Spinner = []"
| "imagesOf (ImageEl s a w h c) = [ImageEl s a w h c]"
| "imagesOf (Span ns) = concat (map imagesOf ns)"
| "imagesOf (Fragment ns) = concat (map imagesOf ns)"

definition elementImages :: "element \<Rightarrow> node list" where
  "elementImages e =
     (case e of
        Anchor h t r c k ct \<Rightarrow> concat (map imagesOf ct)
      | ButtonEl c d k ct \<Rightarrow> concat (map imagesOf ct))"

text \<open>
  For reading a class string back: a class token is a non-empty string without
  spaces, and the tokens of the caller's \<open>className\<close> are those of the string given,
  none when it is omitted.
\<close>

definition is_word :: "string \<Rightarrow> bool" where
  "is_word w = (w \<noteq> [] \<and> CHR '' '' \<notin> set w)"

definition classNameTokens :: "string option \<Rightarrow> string set" where
  "classNameTokens c = (case c of None \<Rightarrow> {} | Some s \<Rightarrow> set (tokens s))"

section \<open>Concrete configurations\<close>

definition plainButton :: ButtonProps where
  "plainButton =
     \<lparr> className = None, variant = None, size_dim = None, width = None, href = None,
       target = None, rel = None, icon = None, iconPosition = None, loading = None,
       loadingText = None, children = [Text ''Save''], disabled = None, onClick = None \<rparr>"

definition plainLink :: "string \<Rightarrow> ActionButtonConfig" where
  "plainLink h =
     \<lparr> cfg_label = ''Open'', cfg_href = h, cfg_variant = None, cfg_size = None,
       cfg_width = None, cfg_icon = None, cfg_external = None, cfg_target = None,
       cfg_rel = None, cfg_className = None, cfg_loading = None, cfg_disabled = None,
       cfg_onClick = None \<rparr>"

definition bareIcon :: icon_config where
  "bareIcon =
     \<lparr> icon_src = None, icon_alt = None, icon_width = None, icon_height = None,
       icon_position = None, icon_className = None \<rparr>"

definition plainButtons :: ActionButtonsProps where
  "plainButtons =
     \<lparr> abs_buttons = [], abs_direction = None, abs_align = None, abs_gap = None,
       abs_width = None, abs_className = None, abs_responsive = None \<rparr>"

definition plainMain :: main_config where
  "plainMain =
     \<lparr> main_className = None, main_centered = None, main_maxWidth = None,
       main_padding = None \<rparr>"

definition plainPage :: PageLayoutProps where
  "plainPage =
     \<lparr> pl_variant = None, pl_main = None, pl_container = None, pl_className = None,
       pl_background = None \<rparr>"

section \<open>Auxiliary facts\<close>

lemma startsWith_prefix: "startsWith s p = prefix p s"
proof
  assume "startsWith s p"
  then have "s = p @ drop (length p) s"
    by (metis startsWith_def append_take_drop_id)
  then show "prefix p s" by (rule prefixI)
next
  assume "prefix p s"
  then show "startsWith s p" by (auto simp: startsWith_def prefix_def)
qed

lemma fragments_Cons: "fragments (x # xs) = toVal x @ fragments xs"
  by (simp add: fragments_def)

lemma cn_cong: "fragments xs = fragments ys \<Longrightarrow> cn xs = cn ys"
  by (simp add: cn_def)

lemma clsx_cong: "fragments xs = fragments ys \<Longrightarrow> clsx xs = clsx ys"
  by (simp add: clsx_def)

text \<open>A key that a table does not define contributes no fragment, inherited or not.\<close>

lemma unknown_key_no_fragment:
  "k \<notin> fst ` set table \<Longrightarrow> toVal (fragmentOf (js_get table k)) = []"
  by (simp add: js_get_def fragmentOf_def map_of_eq_None_iff [THEN iffD2])

lemma Button_cases:
  "Button p =
     (if truthy (href p)
      then Anchor (default_to [] (href p)) (target p) (rel p) (buttonClassName p) (onClick p)
             (content p)
      else ButtonEl (buttonClassName p) (isDisabled p) (onClick p) (content p))"
  by (simp add: Button_def truthy_def default_to_def split: option.split)

section \<open>External links\<close>

text \<open>
  C2. For every href and optional \<open>external\<close> flag, the link is detected as external
  exactly when the flag is true, or the href starts with \<open>http\<close>, or the href starts
  with \<open>//\<close>. In particular \<open>https://a.com\<close> and \<open>//a.com\<close> are external, \<open>/local\<close>
  is not, and \<open>/local\<close> with the flag set is.
\<close>

theorem isExternal_spec:
  "isExternal h ext = (ext = Some True \<or> prefix ''http'' h \<or> prefix ''//'' h)
   \<and> isExternal ''https://a.com'' None
   \<and> isExternal ''//a.com'' None
   \<and> \<not> isExternal ''/local'' None
   \<and> isExternal ''/local'' (Some True)"
  by (simp add: isExternal_def startsWith_prefix)

section \<open>Default target and rel\<close>

text \<open>
  C1, as claimed, fails: a caller who gives \<open>target = "_blank"\<close> on the local href
  \<open>/local\<close> and no \<open>rel\<close> gets the new-context target and no \<open>rel\<close> at all, on the
  rendered anchor as well. The default \<open>rel\<close> is derived from the external-link
  detection, not from the resolved target.
\<close>

theorem explicit_target_without_rel_unprotected:
  "cfg_rel ((plainLink ''/local'')\<lparr>cfg_target := Some ''_blank''\<rparr>) = None
   \<and> finalTarget ((plainLink ''/local'')\<lparr>cfg_target := Some ''_blank''\<rparr>) = Some ''_blank''
   \<and> finalRel ((plainLink ''/local'')\<lparr>cfg_target := Some ''_blank''\<rparr>) = None
   \<and> a_target (renderActionButton ((plainLink ''/local'')\<lparr>cfg_target := Some ''_blank''\<rparr>))
       = Some ''_blank''
   \<and> a_rel (renderActionButton ((plainLink ''/local'')\<lparr>cfg_target := Some ''_blank''\<rparr>)) = None"
  by (simp add: plainLink_def finalTarget_def finalRel_def or_else_def truthy_def
      isExternal_def startsWith_def renderActionButton_def Button_cases ActionButton_def)

text \<open>
  C1, amended. For every resolution in which the caller supplied no explicit \<open>rel\<close>
  (none, or the empty string): the resolved \<open>rel\<close> is \<open>noopener noreferrer\<close> when the
  link is detected as external and is undefined otherwise; and when the caller
  supplied no target either, the resolved target is \<open>_blank\<close> exactly when the link
  is detected as external. So every new-context target that the resolution derived by
  itself comes with the opener-isolating \<open>rel\<close>; a new-context target that the caller
  supplied on a link not detected as external does not.
\<close>

theorem finalRel_of_external:
  assumes "\<not> truthy (cfg_rel c)"
  shows "finalRel c =
           (if isExternal (cfg_href c) (cfg_external c) then Some ''noopener noreferrer''
            else None)
         \<and> (\<not> truthy (cfg_target c) \<longrightarrow>
              (finalTarget c = Some ''_blank'') = isExternal (cfg_href c) (cfg_external c))"
  using assms by (simp add: finalRel_def finalTarget_def or_else_def)

theorem finalRel_of_external_witness:
  "\<not> truthy (cfg_rel (plainLink ''https://a.com''))
   \<and> finalTarget (plainLink ''https://a.com'') = Some ''_blank''
   \<and> finalRel (plainLink ''https://a.com'') = Some ''noopener noreferrer''"
proof -
  have r: "\<not> truthy (cfg_rel (plainLink ''https://a.com''))"
    by (simp add: plainLink_def truthy_def)
  have e: "isExternal (cfg_href (plainLink ''https://a.com''))
             (cfg_external (plainLink ''https://a.com''))"
    by (simp add: plainLink_def isExternal_def startsWith_def)
  have t: "\<not> truthy (cfg_target (plainLink ''https://a.com''))"
    by (simp add: plainLink_def truthy_def)
  from finalRel_of_external [OF r] e t show ?thesis using r by simp
qed

text \<open>
  C7, as claimed, fails for one explicit target: the empty string. It is falsy in
  \<open>target || ...\<close>, so on the external href \<open>https://a.com\<close> the resolved target
  is the derived \<open>_blank\<close> and not the value the caller supplied.
\<close>

theorem empty_target_not_used:
  "cfg_target ((plainLink ''https://a.com'')\<lparr>cfg_target := Some []\<rparr>) = Some []
   \<and> finalTarget ((plainLink ''https://a.com'')\<lparr>cfg_target := Some []\<rparr>) = Some ''_blank''"
  by (simp add: plainLink_def finalTarget_def or_else_def truthy_def isExternal_def
      startsWith_def)

text \<open>
  C7, amended. For every resolution, a caller-supplied non-empty target is the
  resolved target, unchanged, whatever the href and the \<open>external\<close> flag are (so
  whether or not the link is detected as external).
\<close>

theorem explicit_target_wins:
  assumes "cfg_target c = Some t" and "t \<noteq> []"
  shows "finalTarget c = Some t"
  using assms by (simp add: finalTarget_def or_else_def truthy_def)

theorem explicit_target_wins_witness:
  "finalTarget ((plainLink ''https://a.com'')\<lparr>cfg_target := Some ''_self''\<rparr>) = Some ''_self''
   \<and> finalTarget ((plainLink ''/local'')\<lparr>cfg_target := Some ''_top''\<rparr>) = Some ''_top''"
  using explicit_target_wins [of "(plainLink ''https://a.com'')\<lparr>cfg_target := Some ''_self''\<rparr>" "''_self''"]
        explicit_target_wins [of "(plainLink ''/local'')\<lparr>cfg_target := Some ''_top''\<rparr>" "''_top''"]
  by simp

section \<open>Anchor or button\<close>

text \<open>
  C4. For every configuration, \<open>Button\<close> renders the anchor (Navigable), carrying the
  given \<open>href\<close>, \<open>target\<close> and \<open>rel\<close>, exactly when a destination address is present,
  and the button element (Actionable), carrying the click handler, otherwise. The
  component decides presence by \<open>href ? ... : ...\<close>, that is by the truthiness of
  \<open>href\<close>; two configurations that agree on it render the same kind of element,
  whatever their other fields are.
\<close>

theorem Button_kind:
  "elementKind (Button p) = (if truthy (href p) then Navigable else Actionable)
   \<and> (Comp p = ''a'') = (elementKind (Button p) = Navigable)
   \<and> (case Button p of
         Anchor h t r c k ct \<Rightarrow> href p = Some h \<and> t = target p \<and> r = rel p
       | ButtonEl c d k ct \<Rightarrow> k = onClick p)
   \<and> (\<forall>q. truthy (href q) = truthy (href p) \<longrightarrow>
            elementKind (Button q) = elementKind (Button p))"
  by (simp add: Button_cases elementKind_def Comp_def)
     (simp add: truthy_def default_to_def split: option.split)

theorem Button_kind_witness:
  "elementKind (Button (plainButton\<lparr>href := Some ''/docs''\<rparr>)) = Navigable
   \<and> elementKind (Button (plainButton\<lparr>href := Some ''/home'', loading := Some True,
        disabled := Some True, variant := Some ''ghost'', onClick := Some 7\<rparr>)) = Navigable
   \<and> elementKind (Button plainButton) = Actionable
   \<and> elementKind (Button (plainButton\<lparr>target := Some ''_blank'', rel := Some ''noopener'',
        onClick := Some 7\<rparr>)) = Actionable"
proof -
  note k = Button_kind [THEN conjunct1]
  have "elementKind (Button (plainButton\<lparr>href := Some ''/docs''\<rparr>)) = Navigable"
    by (simp add: k truthy_def)
  moreover have "elementKind (Button (plainButton\<lparr>href := Some ''/home'',
        loading := Some True, disabled := Some True, variant := Some ''ghost'',
        onClick := Some 7\<rparr>)) = Navigable"
    by (simp add: k truthy_def)
  moreover have "elementKind (Button plainButton) = Actionable"
    by (simp add: k truthy_def plainButton_def)
  moreover have "elementKind (Button (plainButton\<lparr>target := Some ''_blank'',
        rel := Some ''noopener'', onClick := Some 7\<rparr>)) = Actionable"
    by (simp add: k truthy_def plainButton_def)
  ultimately show ?thesis by simp
qed

text \<open>
  C10. For the href equal to the empty string, \<open>Button\<close> renders the button element
  (Actionable), not the anchor: the element is the one rendered for an absent href,
  and an \<open>ActionButton\<close> configured with the empty href renders a button as well.
\<close>

theorem empty_href_is_button:
  "elementKind (Button (p\<lparr>href := Some []\<rparr>)) = Actionable
   \<and> Comp (p\<lparr>href := Some []\<rparr>) = ''button''
   \<and> Button (p\<lparr>href := Some []\<rparr>) = Button (p\<lparr>href := None\<rparr>)
   \<and> elementKind (renderActionButton (c\<lparr>cfg_href := []\<rparr>)) = Actionable"
  by (simp add: Button_cases elementKind_def Comp_def truthy_def buttonClassName_def
      isDisabled_def isLoading_def content_def iconAt_def iconPositionOf_def
      renderActionButton_def ActionButton_def)

section \<open>Loading\<close>

text \<open>
  C5, as claimed, fails: with \<open>loading\<close> set and the href \<open>/x\<close>, \<open>Button\<close> renders an
  anchor that still carries its href and its click handler and has no \<open>disabled\<close>
  attribute, and the label \<open>Save\<close> is still shown, after the spinner.
\<close>

theorem loading_anchor_not_disabled:
  "Button (plainButton\<lparr>href := Some ''/x'', loading := Some True, onClick := Some 7\<rparr>) =
     Anchor ''/x'' None None
       (buttonClassName
          (plainButton\<lparr>href := Some ''/x'', loading := Some True, onClick := Some 7\<rparr>))
       (Some 7) [Spinner, Span [Text ''Save'']]"
  by (simp add: Button_cases plainButton_def isDisabled_def isLoading_def content_def
      iconAt_def truthy_def buttonClassName_def default_to_def)

text \<open>What a loading \<open>Button\<close> shows, for either kind of element.\<close>

lemma loading_content:
  assumes "loading p = Some True"
  shows "content p =
           [Spinner,
            Span (case loadingText p of
                    None \<Rightarrow> children p
                  | Some t \<Rightarrow> if t = [] then children p else [Text t])]"
  using assms
  by (simp add: isLoading_def content_def iconAt_def truthy_def split: option.split)

lemma elementContent_Button: "elementContent (Button p) = content p"
  by (simp add: Button_cases elementContent_def)

text \<open>
  C5, amended. For every configuration with \<open>loading\<close> set, and for both kinds of
  element, the content is the spinner, without the icon of \<open>Button\<close>, followed by
  the label, which is \<open>loadingText\<close> when a non-empty one is given and the children
  otherwise; and when the element is the button one (no href, or the empty one), it
  is disabled whether or not the caller set \<open>disabled\<close>.
\<close>

theorem loading_spinner_and_disabled:
  assumes "loading p = Some True"
  shows "elementContent (Button p) =
           [Spinner,
            Span (case loadingText p of
                    None \<Rightarrow> children p
                  | Some t \<Rightarrow> if t = [] then children p else [Text t])]
         \<and> (\<not> truthy (href p) \<longrightarrow>
              Button p =
                ButtonEl (buttonClassName p) True (onClick p)
                  [Spinner,
                   Span (case loadingText p of
                           None \<Rightarrow> children p
                         | Some t \<Rightarrow> if t = [] then children p else [Text t])])"
proof (intro conjI impI)
  show "elementContent (Button p) =
           [Spinner,
            Span (case loadingText p of
                    None \<Rightarrow> children p
                  | Some t \<Rightarrow> if t = [] then children p else [Text t])]"
    by (simp only: elementContent_Button loading_content [OF assms])
next
  assume h: "\<not> truthy (href p)"
  have d: "isDisabled p" using assms by (simp add: isDisabled_def isLoading_def)
  show "Button p =
          ButtonEl (buttonClassName p) True (onClick p)
            [Spinner,
             Span (case loadingText p of
                     None \<Rightarrow> children p
                   | Some t \<Rightarrow> if t = [] then children p else [Text t])]"
    using h d by (simp add: Button_cases loading_content [OF assms])
qed

theorem loading_spinner_and_disabled_witness:
  "elementContent (Button (plainButton\<lparr>href := Some ''/x'', loading := Some True,
       loadingText := Some ''Saving'', icon := Some (Text ''*'')\<rparr>)) =
     [Spinner, Span [Text ''Saving'']]
   \<and> elementContent (Button (plainButton\<lparr>href := Some ''/x'', loading := Some True\<rparr>)) =
     [Spinner, Span [Text ''Save'']]
   \<and> Button (plainButton\<lparr>loading := Some True, icon := Some (Text ''*'')\<rparr>) =
     ButtonEl (buttonClassName (plainButton\<lparr>loading := Some True, icon := Some (Text ''*'')\<rparr>))
       True None [Spinner, Span [Text ''Save'']]"
proof -
  let ?a = "plainButton\<lparr>href := Some ''/x'', loading := Some True,
              loadingText := Some ''Saving'', icon := Some (Text ''*'')\<rparr>"
  let ?b = "plainButton\<lparr>href := Some ''/x'', loading := Some True\<rparr>"
  let ?c = "plainButton\<lparr>loading := Some True, icon := Some (Text ''*'')\<rparr>"
  have la: "loading ?a = Some True" by simp
  have lb: "loading ?b = Some True" by simp
  have lc: "loading ?c = Some True" by simp
  have hc: "\<not> truthy (href ?c)" by (simp add: plainButton_def truthy_def)
  have 1: "elementContent (Button ?a) = [Spinner, Span [Text ''Saving'']]"
    using loading_spinner_and_disabled [OF la, THEN conjunct1] by (simp add: plainButton_def)
  have 2: "elementContent (Button ?b) = [Spinner, Span [Text ''Save'']]"
    using loading_spinner_and_disabled [OF lb, THEN conjunct1] by (simp add: plainButton_def)
  have 3: "Button ?c = ButtonEl (buttonClassName ?c) True None [Spinner, Span [Text ''Save'']]"
    using loading_spinner_and_disabled [OF lc, THEN conjunct2, THEN mp, OF hc]
    by (simp add: plainButton_def)
  from 1 2 3 show ?thesis by (intro conjI)
qed

section \<open>Declared defaults\<close>

text \<open>
  C8. The declared defaults are \<open>primary\<close>, \<open>default\<close> and \<open>auto\<close>. For every
  configuration, the class string with the variant omitted is the class string with
  the variant set to \<open>primary\<close>, and likewise for the size and \<open>default\<close> and for the
  width and \<open>auto\<close>; the same holds for the whole element \<open>Button\<close> renders and for
  the element an \<open>ActionButton\<close> renders.
\<close>

theorem variant_defaults:
  "map_of buttonDefaultVariants ''variant'' = Some ''primary''
   \<and> map_of buttonDefaultVariants ''size'' = Some ''default''
   \<and> map_of buttonDefaultVariants ''width'' = Some ''auto''
   \<and> buttonVariants None s w c = buttonVariants (Some ''primary'') s w c
   \<and> buttonVariants v None w c = buttonVariants v (Some ''default'') w c
   \<and> buttonVariants v s None c = buttonVariants v s (Some ''auto'') c
   \<and> Button (p\<lparr>variant := None\<rparr>) = Button (p\<lparr>variant := Some ''primary''\<rparr>)
   \<and> Button (p\<lparr>size_dim := None\<rparr>) = Button (p\<lparr>size_dim := Some ''default''\<rparr>)
   \<and> Button (p\<lparr>width := None\<rparr>) = Button (p\<lparr>width := Some ''auto''\<rparr>)
   \<and> renderActionButton (a\<lparr>cfg_variant := None\<rparr>)
       = renderActionButton (a\<lparr>cfg_variant := Some ''primary''\<rparr>)
   \<and> renderActionButton (a\<lparr>cfg_size := None\<rparr>)
       = renderActionButton (a\<lparr>cfg_size := Some ''default''\<rparr>)
   \<and> renderActionButton (a\<lparr>cfg_width := None\<rparr>)
       = renderActionButton (a\<lparr>cfg_width := Some ''auto''\<rparr>)"
proof -
  have d: "map_of buttonDefaultVariants ''variant'' = Some ''primary''"
    "map_of buttonDefaultVariants ''size'' = Some ''default''"
    "map_of buttonDefaultVariants ''width'' = Some ''auto''"
    by (simp_all add: buttonDefaultVariants_def)
  have x: "buttonVariants None s w c = buttonVariants (Some ''primary'') s w c" for s w c
    by (simp add: buttonVariants_def cva_def cvaArgs_def buttonVariantTable_def
        variantClassName_def variantProps_def or_else_def truthy_def d)
  have y: "buttonVariants v None w c = buttonVariants v (Some ''default'') w c" for v w c
    by (simp add: buttonVariants_def cva_def cvaArgs_def buttonVariantTable_def
        variantClassName_def variantProps_def or_else_def truthy_def d)
  have z: "buttonVariants v s None c = buttonVariants v s (Some ''auto'') c" for v s c
    by (simp add: buttonVariants_def cva_def cvaArgs_def buttonVariantTable_def
        variantClassName_def variantProps_def or_else_def truthy_def d)
  have b1: "Button (p\<lparr>variant := None\<rparr>) = Button (p\<lparr>variant := Some ''primary''\<rparr>)"
    by (simp add: Button_def buttonClassName_def x isDisabled_def isLoading_def content_def
        iconAt_def iconPositionOf_def split: option.split)
  have b2: "Button (p\<lparr>size_dim := None\<rparr>) = Button (p\<lparr>size_dim := Some ''default''\<rparr>)"
    by (simp add: Button_def buttonClassName_def y isDisabled_def isLoading_def content_def
        iconAt_def iconPositionOf_def split: option.split)
  have b3: "Button (p\<lparr>width := None\<rparr>) = Button (p\<lparr>width := Some ''auto''\<rparr>)"
    by (simp add: Button_def buttonClassName_def z isDisabled_def isLoading_def content_def
        iconAt_def iconPositionOf_def split: option.split)
  have ax: "ActionButton (a\<lparr>cfg_variant := None\<rparr>)
              = ActionButton (a\<lparr>cfg_variant := Some ''primary''\<rparr>)"
    by (simp add: ActionButton_def default_to_def finalTarget_def finalRel_def
        buttonContent_def)
  have ay: "ActionButton (a\<lparr>cfg_size := None\<rparr>)
              = ActionButton (a\<lparr>cfg_size := Some ''default''\<rparr>)"
    by (simp add: ActionButton_def default_to_def finalTarget_def finalRel_def
        buttonContent_def)
  have az: "ActionButton (a\<lparr>cfg_width := None\<rparr>)
              = ActionButton (a\<lparr>cfg_width := Some ''auto''\<rparr>)"
    by (simp add: ActionButton_def default_to_def finalTarget_def finalRel_def
        buttonContent_def)
  show ?thesis
    using d x y z b1 b2 b3 by (simp add: renderActionButton_def ax ay az)
qed

section \<open>Responsive classes of the container\<close>

text \<open>
  The example of the specification, merged by \<open>cn\<close> as modelled above: horizontal
  with stacking, then the same configuration with the vertical direction.
\<close>

lemma containerClasses_examples:
  "containerClasses plainButtons =
     ''flex gap-4 justify-center items-center flex-row w-auto flex-col sm:flex-row''
   \<and> containerClasses (plainButtons\<lparr>abs_direction := Some ''vertical''\<rparr>) =
     ''flex gap-4 justify-center items-center flex-col w-auto''"
  by code_simp

subsection \<open>The merged class string, token by token\<close>

text \<open>Joining class tokens by spaces and splitting the string again gives the tokens back.\<close>

lemma tokens_from_word:
  "CHR '' '' \<notin> set w \<Longrightarrow> tokens_from acc (w @ s) = tokens_from (rev w @ acc) s"
proof (induction w arbitrary: acc)
  case Nil
  show ?case by simp
next
  case (Cons a w)
  then have a: "a \<noteq> CHR '' ''" and w: "CHR '' '' \<notin> set w" by auto
  have "tokens_from acc ((a # w) @ s) = tokens_from (a # acc) (w @ s)"
    using a by simp
  also have "\<dots> = tokens_from (rev w @ a # acc) s"
    by (rule Cons.IH [OF w])
  finally show ?case by simp
qed


lemma tokens_from_words:
  "CHR '' '' \<notin> set acc \<Longrightarrow> w \<in> set (tokens_from acc s) \<Longrightarrow> is_word w"
proof (induction acc s rule: tokens_from.induct)
  case (1 acc)
  then show ?case by (cases "acc = []") (simp_all add: is_word_def)
next
  case (2 acc c cs)
  show ?case
  proof (cases "c = CHR '' ''")
    case sp: True
    show ?thesis
    proof (cases "acc = []")
      case True
      with sp 2 show ?thesis by simp
    next
      case False
      with sp 2(5) have "w = rev acc \<or> w \<in> set (tokens_from [] cs)" by simp
      then show ?thesis
      proof
        assume "w = rev acc"
        with False 2(4) show ?thesis by (simp add: is_word_def)
      next
        assume "w \<in> set (tokens_from [] cs)"
        with sp False 2(2) show ?thesis by simp
      qed
    qed
  next
    case False
    with 2(5) have "w \<in> set (tokens_from (c # acc) cs)" by simp
    moreover from False 2(4) have "CHR '' '' \<notin> set (c # acc)" by auto
    ultimately show ?thesis using 2(3) False by blast
  qed
qed

lemma tokens_words: "w \<in> set (tokens s) \<Longrightarrow> is_word w"
  using tokens_from_words [of "[]" w s] by (simp add: tokens_def)


lemma tokens_join_sp:
  "(\<And>w. w \<in> set ws \<Longrightarrow> is_word w) \<Longrightarrow> tokens (join_sp ws) = ws"
proof (induction ws rule: join_sp.induct)
  case 1
  show ?case by (simp add: tokens_def)
next
  case (2 x)
  have "is_word x" by (rule 2) simp
  then have x: "CHR '' '' \<notin> set x" "x \<noteq> []" by (simp_all add: is_word_def)
  have "tokens_from [] (x @ []) = tokens_from (rev x @ []) []"
    by (rule tokens_from_word [OF x(1)])
  then show ?case using x(2) by (simp add: tokens_def)
next
  case (3 x y ys)
  have "is_word x" by (rule 3(2)) simp
  then have x: "CHR '' '' \<notin> set x" "x \<noteq> []" by (simp_all add: is_word_def)
  have ih: "tokens (join_sp (y # ys)) = y # ys"
    by (rule 3(1)) (rule 3(2), simp)
  have "tokens_from [] (x @ CHR '' '' # join_sp (y # ys))
          = tokens_from (rev x @ []) (CHR '' '' # join_sp (y # ys))"
    by (rule tokens_from_word [OF x(1)])
  also have "\<dots> = x # tokens_from [] (join_sp (y # ys))"
    using x(2) by simp
  finally show ?case using ih by (simp add: tokens_def)
qed

lemma tokens_cn:
  "tokens (cn args) = remdups (concat (map tokens (fragments args)))"
  unfolding cn_def
proof (rule tokens_join_sp)
  fix w
  assume "w \<in> set (remdups (concat (map tokens (fragments args))))"
  then obtain f where "w \<in> set (tokens f)" by auto
  then show "is_word w" by (rule tokens_words)
qed

lemma set_tokens_cn:
  "set (tokens (cn args)) = (\<Union>f \<in> set (fragments args). set (tokens f))"
  by (simp add: tokens_cn)

lemma gap_tokens:
  "(\<Union>f \<in> set (toVal (fragmentOf (js_get gapClasses g))). set (tokens f))
     \<subseteq> {''gap-2'', ''gap-4'', ''gap-6''}"
  by (simp add: js_get_def gapClasses_def fragmentOf_def tokens_def)

lemma align_tokens:
  "(\<Union>f \<in> set (toVal (fragmentOf (js_get alignClasses a))). set (tokens f))
     \<subseteq> {''justify-start'', ''items-start'', ''justify-center'', ''items-center'',
         ''justify-end'', ''items-end'', ''justify-stretch'', ''items-stretch''}"
  by (simp add: js_get_def alignClasses_def fragmentOf_def tokens_def)

lemma rule_tokens:
  "(''sm:flex-row'' \<in> (\<Union>f \<in> set (toVal (Dict (containerRules d w mob))). set (tokens f)))
     = (mob = Some ''stack'' \<and> d = ''horizontal'')"
  "(''flex-wrap'' \<in> (\<Union>f \<in> set (toVal (Dict (containerRules d w mob))). set (tokens f)))
     = (mob = Some ''wrap'')"
  "(''overflow-x-auto'' \<in> (\<Union>f \<in> set (toVal (Dict (containerRules d w mob))). set (tokens f)))
     = (mob = Some ''scroll'')"
  by (simp_all add: containerRules_def tokens_def)

lemma className_tokens:
  "(\<Union>f \<in> set (toVal (opt_class c)). set (tokens f)) = classNameTokens c"
  by (cases c) (simp_all add: opt_class_def classNameTokens_def tokens_def)


lemma container_tokens:
  "set (tokens (containerClasses p)) =
     {''flex''}
     \<union> (\<Union>f \<in> set (toVal (fragmentOf (js_get gapClasses (default_to ''md'' (abs_gap p))))).
          set (tokens f))
     \<union> (\<Union>f \<in> set (toVal (fragmentOf (js_get alignClasses (default_to ''center'' (abs_align p))))).
          set (tokens f))
     \<union> (\<Union>f \<in> set (toVal (Dict (containerRules (directionOf p)
                (default_to ''auto'' (abs_width p)) (mobile (responsiveOf p))))).
          set (tokens f))
     \<union> classNameTokens (abs_className p)"
  unfolding containerClasses_def set_tokens_cn containerArgs_def fragments_Cons
  by (simp only: set_append UN_Un className_tokens [symmetric] fragments_def list.map concat.simps
        append_Nil2 Un_assoc)
     (simp add: tokens_def)

text \<open>
  In the class string merged by \<open>cn\<close> as modelled above: the token \<open>sm:flex-row\<close>, which only the stack
  fragment carries, is there exactly when the behaviour is \<open>stack\<close> and the
  direction is \<open>horizontal\<close>, unless the caller's own \<open>className\<close> brings it;
  likewise \<open>flex-wrap\<close> for \<open>wrap\<close> and \<open>overflow-x-auto\<close> for \<open>scroll\<close>,
  whatever the direction.
\<close>

lemma stack_token:
  "(''sm:flex-row'' \<in> set (tokens (containerClasses p))) =
     (mobile (responsiveOf p) = Some ''stack'' \<and> directionOf p = ''horizontal''
      \<or> ''sm:flex-row'' \<in> classNameTokens (abs_className p))"
proof -
  have g: "''sm:flex-row'' \<notin> (\<Union>f \<in> set (toVal (fragmentOf (js_get gapClasses g))). set (tokens f))" for g
    using gap_tokens [of g] by auto
  have a: "''sm:flex-row'' \<notin> (\<Union>f \<in> set (toVal (fragmentOf (js_get alignClasses a))). set (tokens f))" for a
    using align_tokens [of a] by auto
  show ?thesis
    unfolding container_tokens Un_iff rule_tokens using g a by simp
qed

lemma wrap_token:
  "(''flex-wrap'' \<in> set (tokens (containerClasses p))) =
     (mobile (responsiveOf p) = Some ''wrap''
      \<or> ''flex-wrap'' \<in> classNameTokens (abs_className p))"
proof -
  have g: "''flex-wrap'' \<notin> (\<Union>f \<in> set (toVal (fragmentOf (js_get gapClasses g))). set (tokens f))" for g
    using gap_tokens [of g] by auto
  have a: "''flex-wrap'' \<notin> (\<Union>f \<in> set (toVal (fragmentOf (js_get alignClasses a))). set (tokens f))" for a
    using align_tokens [of a] by auto
  show ?thesis
    unfolding container_tokens Un_iff rule_tokens using g a by simp
qed

lemma scroll_token:
  "(''overflow-x-auto'' \<in> set (tokens (containerClasses p))) =
     (mobile (responsiveOf p) = Some ''scroll''
      \<or> ''overflow-x-auto'' \<in> classNameTokens (abs_className p))"
proof -
  have g: "''overflow-x-auto'' \<notin> (\<Union>f \<in> set (toVal (fragmentOf (js_get gapClasses g))). set (tokens f))" for g
    using gap_tokens [of g] by auto
  have a: "''overflow-x-auto'' \<notin> (\<Union>f \<in> set (toVal (fragmentOf (js_get alignClasses a))). set (tokens f))" for a
    using align_tokens [of a] by auto
  show ?thesis
    unfolding container_tokens Un_iff rule_tokens using g a by simp
qed


text \<open>
  C6. For every configuration of the container, the merged class string carries the
  token \<open>sm:flex-row\<close> of the stack fragment exactly when the mobile behaviour is
  \<open>stack\<close> and the direction is \<open>horizontal\<close>, and the tokens \<open>flex-wrap\<close> and
  \<open>overflow-x-auto\<close> of the wrap and scroll fragments exactly when the behaviour is
  \<open>wrap\<close> and \<open>scroll\<close>, whatever the direction (in each case apart from a token the
  caller's own \<open>className\<close> brings). The class string is the merge of the container's
  arguments, whose fourth is the object literal of conditional classes; that literal
  attaches to the stack fragment the condition that the behaviour is \<open>stack\<close> and the
  direction \<open>horizontal\<close>, to the wrap and scroll fragments the behaviour alone, and
  contributes each fragment exactly under its condition.
\<close>

theorem stack_only_when_horizontal:
  "(''sm:flex-row'' \<in> set (tokens (containerClasses p))) =
     (mobile (responsiveOf p) = Some ''stack'' \<and> directionOf p = ''horizontal''
      \<or> ''sm:flex-row'' \<in> classNameTokens (abs_className p))
   \<and> (''flex-wrap'' \<in> set (tokens (containerClasses p))) =
     (mobile (responsiveOf p) = Some ''wrap''
      \<or> ''flex-wrap'' \<in> classNameTokens (abs_className p))
   \<and> (''overflow-x-auto'' \<in> set (tokens (containerClasses p))) =
     (mobile (responsiveOf p) = Some ''scroll''
      \<or> ''overflow-x-auto'' \<in> classNameTokens (abs_className p))
   \<and> containerClasses p = cn (containerArgs p)
   \<and> containerArgs p ! 3 =
       Dict (containerRules (directionOf p) (default_to ''auto'' (abs_width p))
               (mobile (responsiveOf p)))
   \<and> map_of (containerRules d w mob) ''flex-col sm:flex-row''
      = Some (mob = Some ''stack'' \<and> d = ''horizontal'')
   \<and> map_of (containerRules d w mob) ''flex-row flex-wrap'' = Some (mob = Some ''wrap'')
   \<and> map_of (containerRules d w mob) ''flex-row overflow-x-auto'' = Some (mob = Some ''scroll'')
   \<and> (''flex-col sm:flex-row'' \<in> set (toVal (Dict (containerRules d w mob))))
      = (mob = Some ''stack'' \<and> d = ''horizontal'')
   \<and> (''flex-row flex-wrap'' \<in> set (toVal (Dict (containerRules d w mob))))
      = (mob = Some ''wrap'')
   \<and> (''flex-row overflow-x-auto'' \<in> set (toVal (Dict (containerRules d w mob))))
      = (mob = Some ''scroll'')"
proof -
  have r: "map_of (containerRules d w mob) ''flex-col sm:flex-row''
      = Some (mob = Some ''stack'' \<and> d = ''horizontal'')
   \<and> map_of (containerRules d w mob) ''flex-row flex-wrap'' = Some (mob = Some ''wrap'')
   \<and> map_of (containerRules d w mob) ''flex-row overflow-x-auto'' = Some (mob = Some ''scroll'')
   \<and> (''flex-col sm:flex-row'' \<in> set (toVal (Dict (containerRules d w mob))))
      = (mob = Some ''stack'' \<and> d = ''horizontal'')
   \<and> (''flex-row flex-wrap'' \<in> set (toVal (Dict (containerRules d w mob))))
      = (mob = Some ''wrap'')
   \<and> (''flex-row overflow-x-auto'' \<in> set (toVal (Dict (containerRules d w mob))))
      = (mob = Some ''scroll'')"
    by (simp add: containerRules_def)
  have a: "containerArgs p ! 3 =
       Dict (containerRules (directionOf p) (default_to ''auto'' (abs_width p))
               (mobile (responsiveOf p)))"
    by (simp add: containerArgs_def)
  show ?thesis
    by (intro conjI stack_token wrap_token scroll_token containerClasses_def a
        r [THEN conjunct1] r [THEN conjunct2, THEN conjunct1]
        r [THEN conjunct2, THEN conjunct2, THEN conjunct1]
        r [THEN conjunct2, THEN conjunct2, THEN conjunct2, THEN conjunct1]
        r [THEN conjunct2, THEN conjunct2, THEN conjunct2, THEN conjunct2, THEN conjunct1]
        r [THEN conjunct2, THEN conjunct2, THEN conjunct2, THEN conjunct2, THEN conjunct2])
qed

theorem stack_only_when_horizontal_witness:
  "''sm:flex-row'' \<in> set (tokens (containerClasses plainButtons))
   \<and> ''sm:flex-row'' \<notin> set (tokens (containerClasses (plainButtons\<lparr>abs_direction := Some ''vertical''\<rparr>)))
   \<and> ''flex-wrap'' \<in> set (tokens (containerClasses
         (plainButtons\<lparr>abs_direction := Some ''vertical'',
            abs_responsive := Some \<lparr>mobile = Some ''wrap'', tablet = None\<rparr>\<rparr>)))
   \<and> ''overflow-x-auto'' \<in> set (tokens (containerClasses
         (plainButtons\<lparr>abs_direction := Some ''vertical'',
            abs_responsive := Some \<lparr>mobile = Some ''scroll'', tablet = None\<rparr>\<rparr>)))"
proof -
  let ?v = "plainButtons\<lparr>abs_direction := Some ''vertical''\<rparr>"
  let ?w = "plainButtons\<lparr>abs_direction := Some ''vertical'',
              abs_responsive := Some \<lparr>mobile = Some ''wrap'', tablet = None\<rparr>\<rparr>"
  let ?s = "plainButtons\<lparr>abs_direction := Some ''vertical'',
              abs_responsive := Some \<lparr>mobile = Some ''scroll'', tablet = None\<rparr>\<rparr>"
  have 1: "''sm:flex-row'' \<in> set (tokens (containerClasses plainButtons))"
    unfolding stack_only_when_horizontal [of plainButtons, THEN conjunct1]
    by (simp add: plainButtons_def responsiveOf_def directionOf_def default_to_def)
  have 2: "''sm:flex-row'' \<notin> set (tokens (containerClasses ?v))"
    unfolding stack_only_when_horizontal [of ?v, THEN conjunct1]
    by (simp add: plainButtons_def responsiveOf_def directionOf_def default_to_def
        classNameTokens_def)
  have 3: "''flex-wrap'' \<in> set (tokens (containerClasses ?w))"
    unfolding stack_only_when_horizontal [of ?w, THEN conjunct2, THEN conjunct1]
    by (simp add: responsiveOf_def default_to_def)
  have 4: "''overflow-x-auto'' \<in> set (tokens (containerClasses ?s))"
    unfolding stack_only_when_horizontal [of ?s, THEN conjunct2, THEN conjunct2, THEN conjunct1]
    by (simp add: responsiveOf_def default_to_def)
  from 1 2 3 4 show ?thesis by (intro conjI)
qed

section \<open>Icon descriptors\<close>

text \<open>
  C9, as claimed, fails: an icon descriptor with neither \<open>src\<close> nor \<open>alt\<close> is not
  rejected. The action button renders, and the image is there with both attributes
  undefined and the default size.
\<close>

theorem icon_without_src_rendered:
  "renderActionButton ((plainLink ''/docs'')\<lparr>cfg_icon := Some bareIcon\<rparr>) =
     Anchor ''/docs'' None None
       (buttonClassName (ActionButton ((plainLink ''/docs'')\<lparr>cfg_icon := Some bareIcon\<rparr>)))
       None
       [Span [Fragment [ImageEl None None 20 20 ''flex-shrink-0'', Span [Text ''Open'']]]]"
  by (simp add: renderActionButton_def Button_def ActionButton_def plainLink_def bareIcon_def
      finalTarget_def finalRel_def or_else_def truthy_def isExternal_def startsWith_def
      content_def isLoading_def iconAt_def node_truthy_def default_to_def buttonContent_def
      iconImage_def num_or_def cn_def fragments_def opt_class_def tokens_def)

lemma content_images:
  "concat (map imagesOf (content (ActionButton c))) =
     (case cfg_icon c of None \<Rightarrow> [] | Some i \<Rightarrow> [iconImage i])"
  by (simp add: content_def ActionButton_def isLoading_def iconAt_def node_truthy_def
      truthy_def buttonContent_def iconImage_def split: option.split)

text \<open>
  C9, amended. No configuration makes the action button fail on its icon: for every
  configuration that declares an icon descriptor, the rendered element shows exactly
  one image, whose \<open>src\<close> and \<open>alt\<close> are those of the descriptor, unchanged, present
  or missing, whose width and height are the descriptor's or 20 when omitted or zero,
  and whose class is \<open>flex-shrink-0\<close> merged with the descriptor's; a
  configuration without an icon renders no image.
\<close>

theorem icon_passed_through:
  "elementImages (renderActionButton c) =
     (case cfg_icon c of
        None \<Rightarrow> []
      | Some i \<Rightarrow>
          [ImageEl (icon_src i) (icon_alt i)
             (num_or (icon_width i) 20) (num_or (icon_height i) 20)
             (cn [Str ''flex-shrink-0'', opt_class (icon_className i)])])"
  unfolding renderActionButton_def elementImages_def Button_def
  by (simp add: content_images iconImage_def split: option.split)

section \<open>Values that no table defines\<close>

text \<open>
  C3, as claimed, fails: the max-width key \<open>huge\<close>, which \<open>maxWidthClasses\<close> does not
  define, raises nothing. The layout resolves, and the key contributes no class.
\<close>

theorem unknown_maxWidth_accepted:
  "PageLayout (plainPage\<lparr>pl_main := Some (plainMain\<lparr>main_maxWidth := Some ''huge''\<rparr>)\<rparr>) =
     Inr \<lparr> page_containerClasses = ''grid grid-rows-[20px_1fr_20px] items-center justify-items-center min-h-screen p-8 pb-20 gap-16 sm:p-20 font-[family-name:var(--font-geist-sans)]'',
           page_mainClasses = ''flex flex-col gap-[32px] row-start-2 items-center sm:items-start'' \<rparr>"
  by code_simp

lemma maxWidthValue_unknown:
  "k \<notin> fst ` set maxWidthClasses \<Longrightarrow> toVal (maxWidthValue (Some k)) = []"
  by (simp add: maxWidthValue_def unknown_key_no_fragment)

lemma maxWidthValue_omitted: "toVal (maxWidthValue None) = []"
  by (simp add: maxWidthValue_def)

lemma unknown_maxWidth_ignored:
  assumes "k \<notin> fst ` set maxWidthClasses"
  shows "PageLayout (p\<lparr>pl_main := Some (m\<lparr>main_maxWidth := Some k\<rparr>)\<rparr>) =
         PageLayout (p\<lparr>pl_main := Some (m\<lparr>main_maxWidth := None\<rparr>)\<rparr>)"
proof -
  let ?p1 = "p\<lparr>pl_main := Some (m\<lparr>main_maxWidth := Some k\<rparr>)\<rparr>"
  let ?p2 = "p\<lparr>pl_main := Some (m\<lparr>main_maxWidth := None\<rparr>)\<rparr>"
  have v: "variantOf ?p1 = variantOf ?p2"
    by (simp add: variantOf_def)
  have c: "pageContainerRest ?p1 = pageContainerRest ?p2"
    by (simp add: pageContainerRest_def containerOf_def)
  have "fragments (pageMainRest ?p1) = fragments (pageMainRest ?p2)"
    using assms
    by (simp add: pageMainRest_def mainOf_def default_to_def variantOf_def fragments_Cons
        maxWidthValue_unknown maxWidthValue_omitted)
  then have m: "cn (x # pageMainRest ?p1) = cn (x # pageMainRest ?p2)" for x
    by (intro cn_cong) (simp add: fragments_Cons)
  show ?thesis
    unfolding PageLayout_def v c by (simp add: m Let_def split: sum.split)
qed

lemma unknown_preset_fails:
  assumes "v \<notin> fst ` set layoutVariants" and "v \<notin> set objectPrototypeKeys"
  shows "PageLayout (p\<lparr>pl_variant := Some v\<rparr>) = Inl (TypeError ''container'')"
proof -
  have "js_get layoutVariants v = Missing"
    using assms by (simp add: js_get_def map_of_eq_None_iff [THEN iffD2])
  then show ?thesis
    by (simp add: PageLayout_def variantOf_def default_to_def read_layout_def)
qed

lemma unknown_gap_ignored:
  assumes "g \<notin> fst ` set gapClasses"
  shows "containerClasses (q\<lparr>abs_gap := Some g\<rparr>) = cn ((containerArgs q)[1 := Undefined])"
  unfolding containerClasses_def
  using assms
  by (intro cn_cong)
     (simp add: containerArgs_def fragments_Cons default_to_def unknown_key_no_fragment
        directionOf_def responsiveOf_def)

lemma unknown_align_ignored:
  assumes "a \<notin> fst ` set alignClasses"
  shows "containerClasses (q\<lparr>abs_align := Some a\<rparr>) = cn ((containerArgs q)[2 := Undefined])"
  unfolding containerClasses_def
  using assms
  by (intro cn_cong)
     (simp add: containerArgs_def fragments_Cons default_to_def unknown_key_no_fragment
        directionOf_def responsiveOf_def)

lemma unknown_variant_ignored:
  assumes "(''variant'', table) \<in> set buttonVariantTable"
    and "u \<notin> fst ` set table" and "u \<noteq> []"
  shows "buttonVariants (Some u) s w c =
         clsx ((cvaArgs buttonBase buttonVariantTable buttonDefaultVariants
                  (variantProps x s w) c)[1 := Undefined])"
proof -
  from assms(1) have t: "table = snd (hd buttonVariantTable)"
    by (auto simp: buttonVariantTable_def)
  show ?thesis
    unfolding buttonVariants_def cva_def
    using assms(2,3) unfolding t
    by (intro clsx_cong)
       (simp add: cvaArgs_def buttonVariantTable_def fragments_Cons variantClassName_def
          variantProps_def or_else_def truthy_def unknown_key_no_fragment)
qed

lemma unknown_size_ignored:
  assumes "(''size'', table) \<in> set buttonVariantTable"
    and "u \<notin> fst ` set table" and "u \<noteq> []"
  shows "buttonVariants v (Some u) w c =
         clsx ((cvaArgs buttonBase buttonVariantTable buttonDefaultVariants
                  (variantProps v x w) c)[2 := Undefined])"
proof -
  from assms(1) have t: "table = snd (buttonVariantTable ! 1)"
    by (auto simp: buttonVariantTable_def)
  show ?thesis
    unfolding buttonVariants_def cva_def
    using assms(2,3) unfolding t
    by (intro clsx_cong)
       (simp add: cvaArgs_def buttonVariantTable_def fragments_Cons variantClassName_def
          variantProps_def or_else_def truthy_def unknown_key_no_fragment)
qed

lemma unknown_width_ignored:
  assumes "(''width'', table) \<in> set buttonVariantTable"
    and "u \<notin> fst ` set table" and "u \<noteq> []"
  shows "buttonVariants v s (Some u) c =
         clsx ((cvaArgs buttonBase buttonVariantTable buttonDefaultVariants
                  (variantProps v s x) c)[3 := Undefined])"
proof -
  from assms(1) have t: "table = snd (buttonVariantTable ! 2)"
    by (auto simp: buttonVariantTable_def)
  show ?thesis
    unfolding buttonVariants_def cva_def
    using assms(2,3) unfolding t
    by (intro clsx_cong)
       (simp add: cvaArgs_def buttonVariantTable_def fragments_Cons variantClassName_def
          variantProps_def or_else_def truthy_def unknown_key_no_fragment)
qed

lemma unknown_background_ignored:
  assumes "b \<notin> fst ` set backgroundVariants"
  shows "PageLayout (p\<lparr>pl_background := Some b\<rparr>) = PageLayout (p\<lparr>pl_background := None\<rparr>)"
    and "fragments (pageContainerRest (p\<lparr>pl_background := Some b\<rparr>)) =
           fragments ((pageContainerRest p)[0 := Undefined])"
proof -
  let ?p1 = "p\<lparr>pl_background := Some b\<rparr>"
  let ?p2 = "p\<lparr>pl_background := None\<rparr>"
  have v: "variantOf ?p1 = variantOf ?p2"
    by (simp add: variantOf_def)
  have m: "pageMainRest ?p1 = pageMainRest ?p2"
    by (simp add: pageMainRest_def mainOf_def variantOf_def)
  have "fragments (pageContainerRest ?p1) = fragments (pageContainerRest ?p2)"
    using assms
    by (simp add: pageContainerRest_def containerOf_def default_to_def fragments_Cons
        unknown_key_no_fragment)
       (simp add: js_get_def backgroundVariants_def fragmentOf_def)
  then have c: "cn (x # pageContainerRest ?p1) = cn (x # pageContainerRest ?p2)" for x
    by (intro cn_cong) (simp add: fragments_Cons)
  show "PageLayout ?p1 = PageLayout ?p2"
    unfolding PageLayout_def v m by (simp add: c Let_def split: sum.split)
  show "fragments (pageContainerRest ?p1) = fragments ((pageContainerRest p)[0 := Undefined])"
    using assms
    by (simp add: pageContainerRest_def containerOf_def default_to_def fragments_Cons
        unknown_key_no_fragment)
qed

text \<open>
  C3, amended. No resolution raises a configuration error for a value that its table
  does not define. A max-width key outside \<open>maxWidthClasses\<close> is ignored: the layout
  resolves exactly as with the key omitted. A background outside
  \<open>backgroundVariants\<close> is ignored: the layout resolves as with the background
  omitted, and the fragments are those of the arguments with the background
  undefined (the default background has no class of its own). A gap or an alignment
  outside its table is ignored: the container's class string is the one merged with
  that argument undefined. A button variant, size or width outside its table (and
  not empty) is ignored: the class string is the one composed with that dimension's
  fragment undefined, so no default is put in its place. A layout preset name outside
  \<open>layoutVariants\<close> (and not a property that every object inherits) is not replaced
  by a default preset either: the resolution fails, with the \<open>TypeError\<close> of reading
  \<open>container\<close> from \<open>undefined\<close>.
\<close>

theorem unknown_values_not_rejected:
  "(k \<notin> fst ` set maxWidthClasses \<longrightarrow>
      PageLayout (p\<lparr>pl_main := Some (m\<lparr>main_maxWidth := Some k\<rparr>)\<rparr>) =
      PageLayout (p\<lparr>pl_main := Some (m\<lparr>main_maxWidth := None\<rparr>)\<rparr>))
   \<and> (v \<notin> fst ` set layoutVariants \<and> v \<notin> set objectPrototypeKeys \<longrightarrow>
      PageLayout (p\<lparr>pl_variant := Some v\<rparr>) = Inl (TypeError ''container''))
   \<and> (b \<notin> fst ` set backgroundVariants \<longrightarrow>
      PageLayout (p\<lparr>pl_background := Some b\<rparr>) = PageLayout (p\<lparr>pl_background := None\<rparr>)
      \<and> fragments (pageContainerRest (p\<lparr>pl_background := Some b\<rparr>)) =
          fragments ((pageContainerRest p)[0 := Undefined]))
   \<and> (g \<notin> fst ` set gapClasses \<longrightarrow>
      containerClasses (q\<lparr>abs_gap := Some g\<rparr>) = cn ((containerArgs q)[1 := Undefined]))
   \<and> (a \<notin> fst ` set alignClasses \<longrightarrow>
      containerClasses (q\<lparr>abs_align := Some a\<rparr>) = cn ((containerArgs q)[2 := Undefined]))
   \<and> ((''variant'', tv) \<in> set buttonVariantTable \<and> uv \<notin> fst ` set tv \<and> uv \<noteq> [] \<longrightarrow>
      buttonVariants (Some uv) s w c =
      clsx ((cvaArgs buttonBase buttonVariantTable buttonDefaultVariants
               (variantProps x s w) c)[1 := Undefined]))
   \<and> ((''size'', ts) \<in> set buttonVariantTable \<and> us \<notin> fst ` set ts \<and> us \<noteq> [] \<longrightarrow>
      buttonVariants x (Some us) w c =
      clsx ((cvaArgs buttonBase buttonVariantTable buttonDefaultVariants
               (variantProps x s w) c)[2 := Undefined]))
   \<and> ((''width'', tw) \<in> set buttonVariantTable \<and> uw \<notin> fst ` set tw \<and> uw \<noteq> [] \<longrightarrow>
      buttonVariants x s (Some uw) c =
      clsx ((cvaArgs buttonBase buttonVariantTable buttonDefaultVariants
               (variantProps x s w) c)[3 := Undefined]))"
proof (intro conjI impI)
  assume "k \<notin> fst ` set maxWidthClasses"
  then show "PageLayout (p\<lparr>pl_main := Some (m\<lparr>main_maxWidth := Some k\<rparr>)\<rparr>) =
      PageLayout (p\<lparr>pl_main := Some (m\<lparr>main_maxWidth := None\<rparr>)\<rparr>)"
    by (rule unknown_maxWidth_ignored)
next
  assume h: "v \<notin> fst ` set layoutVariants \<and> v \<notin> set objectPrototypeKeys"
  from h have h1: "v \<notin> fst ` set layoutVariants" by (rule conjunct1)
  from h have h2: "v \<notin> set objectPrototypeKeys" by (rule conjunct2)
  show "PageLayout (p\<lparr>pl_variant := Some v\<rparr>) = Inl (TypeError ''container'')"
    by (rule unknown_preset_fails [OF h1 h2])
next
  assume "b \<notin> fst ` set backgroundVariants"
  then show "PageLayout (p\<lparr>pl_background := Some b\<rparr>) = PageLayout (p\<lparr>pl_background := None\<rparr>)"
    by (rule unknown_background_ignored(1))
next
  assume "b \<notin> fst ` set backgroundVariants"
  then show "fragments (pageContainerRest (p\<lparr>pl_background := Some b\<rparr>)) =
          fragments ((pageContainerRest p)[0 := Undefined])"
    by (rule unknown_background_ignored(2))
next
  assume "g \<notin> fst ` set gapClasses"
  then show "containerClasses (q\<lparr>abs_gap := Some g\<rparr>) = cn ((containerArgs q)[1 := Undefined])"
    by (rule unknown_gap_ignored)
next
  assume "a \<notin> fst ` set alignClasses"
  then show "containerClasses (q\<lparr>abs_align := Some a\<rparr>) = cn ((containerArgs q)[2 := Undefined])"
    by (rule unknown_align_ignored)
next
  assume h: "(''variant'', tv) \<in> set buttonVariantTable \<and> uv \<notin> fst ` set tv \<and> uv \<noteq> []"
  from h have h1: "(''variant'', tv) \<in> set buttonVariantTable" by (rule conjunct1)
  from h have h2: "uv \<notin> fst ` set tv" by (rule conjunct2 [THEN conjunct1])
  from h have h3: "uv \<noteq> []" by (rule conjunct2 [THEN conjunct2])
  show "buttonVariants (Some uv) s w c =
      clsx ((cvaArgs buttonBase buttonVariantTable buttonDefaultVariants
               (variantProps x s w) c)[1 := Undefined])"
    by (rule unknown_variant_ignored [OF h1 h2 h3])
next
  assume h: "(''size'', ts) \<in> set buttonVariantTable \<and> us \<notin> fst ` set ts \<and> us \<noteq> []"
  from h have h1: "(''size'', ts) \<in> set buttonVariantTable" by (rule conjunct1)
  from h have h2: "us \<notin> fst ` set ts" by (rule conjunct2 [THEN conjunct1])
  from h have h3: "us \<noteq> []" by (rule conjunct2 [THEN conjunct2])
  show "buttonVariants x (Some us) w c =
      clsx ((cvaArgs buttonBase buttonVariantTable buttonDefaultVariants
               (variantProps x s w) c)[2 := Undefined])"
    by (rule unknown_size_ignored [OF h1 h2 h3])
next
  assume h: "(''width'', tw) \<in> set buttonVariantTable \<and> uw \<notin> fst ` set tw \<and> uw \<noteq> []"
  from h have h1: "(''width'', tw) \<in> set buttonVariantTable" by (rule conjunct1)
  from h have h2: "uw \<notin> fst ` set tw" by (rule conjunct2 [THEN conjunct1])
  from h have h3: "uw \<noteq> []" by (rule conjunct2 [THEN conjunct2])
  show "buttonVariants x s (Some uw) c =
      clsx ((cvaArgs buttonBase buttonVariantTable buttonDefaultVariants
               (variantProps x s w) c)[3 := Undefined])"
    by (rule unknown_width_ignored [OF h1 h2 h3])
qed

theorem unknown_values_not_rejected_witness:
  "PageLayout (plainPage\<lparr>pl_main := Some (plainMain\<lparr>main_maxWidth := Some ''huge''\<rparr>)\<rparr>) =
     PageLayout (plainPage\<lparr>pl_main := Some (plainMain\<lparr>main_maxWidth := None\<rparr>)\<rparr>)
   \<and> PageLayout (plainPage\<lparr>pl_variant := Some ''wide''\<rparr>) = Inl (TypeError ''container'')
   \<and> PageLayout (plainPage\<lparr>pl_background := Some ''stripes''\<rparr>) =
       PageLayout (plainPage\<lparr>pl_background := None\<rparr>)
   \<and> containerClasses (plainButtons\<lparr>abs_gap := Some ''xl''\<rparr>) =
       cn ((containerArgs plainButtons)[1 := Undefined])
   \<and> containerClasses (plainButtons\<lparr>abs_align := Some ''middle''\<rparr>) =
       cn ((containerArgs plainButtons)[2 := Undefined])
   \<and> buttonVariants (Some ''danger'') None None None =
       clsx ((cvaArgs buttonBase buttonVariantTable buttonDefaultVariants
                (variantProps None None None) None)[1 := Undefined])
   \<and> buttonVariants None (Some ''xxl'') None None =
       clsx ((cvaArgs buttonBase buttonVariantTable buttonDefaultVariants
                (variantProps None None None) None)[2 := Undefined])
   \<and> buttonVariants None None (Some ''wide'') None =
       clsx ((cvaArgs buttonBase buttonVariantTable buttonDefaultVariants
                (variantProps None None None) None)[3 := Undefined])"
proof -
  note t = unknown_values_not_rejected [where k = "''huge''" and p = plainPage
      and m = plainMain and v = "''wide''" and b = "''stripes''" and g = "''xl''"
      and q = plainButtons and a = "''middle''"
      and tv = "snd (buttonVariantTable ! 0)" and uv = "''danger''"
      and ts = "snd (buttonVariantTable ! 1)" and us = "''xxl''"
      and tw = "snd (buttonVariantTable ! 2)" and uw = "''wide''"
      and s = None and w = None and c = None and x = None]
  have 1: "''huge'' \<notin> fst ` set maxWidthClasses"
    by (simp add: maxWidthClasses_def)
  have 2: "''wide'' \<notin> fst ` set layoutVariants \<and> ''wide'' \<notin> set objectPrototypeKeys"
    by (simp add: layoutVariants_def objectPrototypeKeys_def)
  have 3: "''stripes'' \<notin> fst ` set backgroundVariants"
    by (simp add: backgroundVariants_def)
  have 4: "''xl'' \<notin> fst ` set gapClasses"
    by (simp add: gapClasses_def)
  have 5: "''middle'' \<notin> fst ` set alignClasses"
    by (simp add: alignClasses_def)
  have 6: "(''variant'', snd (buttonVariantTable ! 0)) \<in> set buttonVariantTable
           \<and> ''danger'' \<notin> fst ` set (snd (buttonVariantTable ! 0)) \<and> ''danger'' \<noteq> []"
    by (simp add: buttonVariantTable_def)
  have 7: "(''size'', snd (buttonVariantTable ! 1)) \<in> set buttonVariantTable
           \<and> ''xxl'' \<notin> fst ` set (snd (buttonVariantTable ! 1)) \<and> ''xxl'' \<noteq> []"
    by (simp add: buttonVariantTable_def)
  have 8: "(''width'', snd (buttonVariantTable ! 2)) \<in> set buttonVariantTable
           \<and> ''wide'' \<notin> fst ` set (snd (buttonVariantTable ! 2)) \<and> ''wide'' \<noteq> []"
    by (simp add: buttonVariantTable_def)
  from t 1 2 3 4 5 6 7 8 show ?thesis by blast
qed

text \<open>
  The same on concrete values: an unknown gap, an unknown button variant, an unknown
  preset name, and a preset name that every object inherits.
\<close>

lemma unknown_values_examples:
  "containerClasses (plainButtons\<lparr>abs_gap := Some ''xl''\<rparr>) =
     ''flex justify-center items-center flex-row w-auto flex-col sm:flex-row''
   \<and> buttonVariants (Some ''danger'') None None None =
     ''inline-flex items-center justify-center gap-2 rounded-full border border-solid transition-colors font-medium focus-visible:outline-none focus-visible:ring-2 focus-visible:ring-ring focus-visible:ring-offset-2 disabled:pointer-events-none disabled:opacity-50 h-10 px-4 text-sm sm:h-12 sm:px-5 sm:text-base w-auto''
   \<and> PageLayout (plainPage\<lparr>pl_variant := Some ''wide''\<rparr>) = Inl (TypeError ''container'')
   \<and> PageLayout (plainPage\<lparr>pl_variant := Some ''constructor''\<rparr>) =
     Inr \<lparr> page_containerClasses = ''font-[family-name:var(--font-geist-sans)]'',
           page_mainClasses = [] \<rparr>"
  by code_simp

end
